theory Spec2Isabelle
  imports Complex_Main
begin

section \<open>Strings, numbers and dates of the JavaScript runtime\<close>

text \<open>
  The stock data fetcher is a JavaScript Lambda handler
  (\<^verbatim>\<open>backend/lambdas/stock-data-fetcher/index.js\<close>); a second copy of the handler, with a
  date-keyed cache, lives beside it. This theory embeds both handlers with their helper
  functions and proves the properties of the cache-aside pipeline. Logging
  (\<^verbatim>\<open>console.log\<close>, \<^verbatim>\<open>console.error\<close>) has no part in the results and is left out.

  Strings are lists of 8-bit characters, read as ASCII: \<open>trim\<close> strips the ASCII white
  space and line terminators, \<open>toUpperCase\<close> maps \<open>a\<close>..\<open>z\<close> to \<open>A\<close>..\<open>Z\<close> and leaves every
  other character alone. Ticker symbols are ASCII.
\<close>

definition isWhiteSpace :: "char \<Rightarrow> bool" where
  "isWhiteSpace c = (c \<in> set [CHR 0x09, CHR 0x0A, CHR 0x0B, CHR 0x0C, CHR 0x0D, CHR 0x20])"

definition trim :: "string \<Rightarrow> string" where
  "trim s = rev (dropWhile isWhiteSpace (rev (dropWhile isWhiteSpace s)))"

definition upper_char :: "char \<Rightarrow> char" where
  "upper_char c =
     (case map_of (zip ''abcdefghijklmnopqrstuvwxyz'' ''ABCDEFGHIJKLMNOPQRSTUVWXYZ'') c of
        Some u \<Rightarrow> u
      | None \<Rightarrow> c)"

definition toUpperCase :: "string \<Rightarrow> string" where
  "toUpperCase s = map upper_char s"

text \<open>\<^verbatim>\<open>s.split(sep)\<close> for a one-character separator: never an empty array.\<close>

fun split :: "char \<Rightarrow> string \<Rightarrow> string list" where
  "split sep [] = [[]]"
| "split sep (c # cs) =
     (if c = sep then [] # split sep cs
      else (case split sep cs of [] \<Rightarrow> [[c]] | x # xs \<Rightarrow> (c # x) # xs))"

text \<open>\<^verbatim>\<open>s.replace("%", "")\<close>: with a string pattern, only the first occurrence goes.\<close>

definition replace_percent :: "string \<Rightarrow> string" where
  "replace_percent s = remove1 (CHR ''%'') s"

text \<open>
  A JavaScript value tested by \<^verbatim>\<open>&&\<close>, \<^verbatim>\<open>||\<close> or \<^verbatim>\<open>if\<close>: an absent (undefined or
  null) value and the empty string are falsy, every other string is truthy.
\<close>

fun truthy :: "string option \<Rightarrow> bool" where
  "truthy None = False"
| "truthy (Some s) = (s \<noteq> [])"

text \<open>
  Numbers: the quote's numeric fields hold whatever \<^verbatim>\<open>parseFloat\<close> and \<^verbatim>\<open>parseInt\<close> return.
  Floating-point rounding plays no role here, so a number is \<open>NaN\<close> or a rational value, and
  the two parsers are parameters of the runtime (fields of the world below).
  \<open>or_zero x\<close> is \<^verbatim>\<open>x || 0\<close>: NaN and zero are falsy.
\<close>

datatype number = NaN | Num rat

fun or_zero :: "number \<Rightarrow> number" where
  "or_zero NaN = Num 0"
| "or_zero (Num r) = (if r = 0 then Num 0 else Num r)"

text \<open>
  \<^verbatim>\<open>new Date(ms).toISOString()\<close>: the proleptic Gregorian calendar date and the UTC time of
  day of a count of milliseconds since the epoch; years outside 0..9999 are written with a
  sign and six digits.
\<close>

definition digit :: "nat \<Rightarrow> char" where
  "digit n = ''0123456789'' ! (n mod 10)"

definition digits2 :: "nat \<Rightarrow> string" where
  "digits2 n = [digit (n div 10), digit n]"

definition digits3 :: "nat \<Rightarrow> string" where
  "digits3 n = digit (n div 100) # digits2 n"

definition digits4 :: "nat \<Rightarrow> string" where
  "digits4 n = digit (n div 1000) # digits3 n"

definition digits6 :: "nat \<Rightarrow> string" where
  "digits6 n = digit (n div 100000) # digit (n div 10000) # digits4 n"

text \<open>
  The calendar date of a day number (days since the epoch), by era of 400 years, year of
  the era and day of the year counted from the first of March.
\<close>

definition civil_from_doy :: "int \<Rightarrow> int \<Rightarrow> int \<Rightarrow> int \<times> int \<times> int" where
  "civil_from_doy era yoe doy =
     (let mp = (5 * doy + 2) div 153;
          m = (if mp < 10 then mp + 3 else mp - 9)
      in (yoe + era * 400 + (if m \<le> 2 then 1 else 0), m, doy - (153 * mp + 2) div 5 + 1))"

definition civil_from_doe :: "int \<Rightarrow> int \<Rightarrow> int \<times> int \<times> int" where
  "civil_from_doe era doe =
     (let yoe = (doe - doe div 1460 + doe div 36524 - doe div 146096) div 365
      in civil_from_doy era yoe (doe - (365 * yoe + yoe div 4 - yoe div 100)))"

definition civil_from_days :: "int \<Rightarrow> int \<times> int \<times> int" where
  "civil_from_days days =
     (let z = days + 719468;
          era = z div 146097
      in civil_from_doe era (z - era * 146097))"

definition iso_date :: "int \<times> int \<times> int \<Rightarrow> string" where
  "iso_date ymd =
     (case ymd of (y, m, d) \<Rightarrow>
        (if 0 \<le> y \<and> y \<le> 9999 then digits4 (nat y)
         else (if y < 0 then ''-'' else ''+'') @ digits6 (nat \<bar>y\<bar>))
        @ ''-'' @ digits2 (nat m) @ ''-'' @ digits2 (nat d))"

definition iso_time :: "nat \<Rightarrow> string" where
  "iso_time ms =
     digits2 (ms div 3600000) @ '':'' @ digits2 (ms div 60000 mod 60) @ '':''
     @ digits2 (ms div 1000 mod 60) @ ''.'' @ digits3 (ms mod 1000)"

definition toISOString :: "int \<Rightarrow> string" where
  "toISOString ms =
     iso_date (civil_from_days (ms div 86400000)) @ ''T''
     @ iso_time (nat (ms mod 86400000)) @ ''Z''"

section \<open>Data model\<close>

text \<open>
  The quote built by \<^verbatim>\<open>fetchFromAlphaVantage\<close>, and the quote with the \<^verbatim>\<open>cached\<close> flag that
  \<^verbatim>\<open>fetchQuoteWithCache\<close> adds by object spread.
\<close>

record quote =
  symbol :: string
  price :: number
  change :: number
  changePct :: number
  volume :: number
  latestTradingDay :: string
  previousClose :: number
  "open" :: number
  high :: number
  low :: number

record quote_result = quote +
  cached :: bool

text \<open>\<^verbatim>\<open>{ ...q, cached: c }\<close>\<close>

definition spread_cached :: "quote \<Rightarrow> bool \<Rightarrow> quote_result" where
  "spread_cached q c = quote.extend q (quote_result.fields c)"

text \<open>
  A cache item as \<^verbatim>\<open>saveToCache\<close> writes it. \<open>key\<close> holds the two key attributes, name and
  value, in the order of the object literal: \<^verbatim>\<open>symbol\<close> and \<^verbatim>\<open>dataType\<close> in the first
  handler, \<^verbatim>\<open>symbol\<close> and \<^verbatim>\<open>date\<close> in the second.
\<close>

record item =
  key :: "(string \<times> string) list"
  data :: quote
  ttl :: int
  timestamp :: int
  updatedAt :: string

record get_params =
  TableName :: string
  Key :: "(string \<times> string) list"

record put_params =
  PutTableName :: string
  Item :: item

text \<open>
  The provider request of \<^verbatim>\<open>axios.get(url, { params, timeout })\<close> and what it resolves
  with: the three fields of \<^verbatim>\<open>response.data\<close> that the code reads. \<open>GlobalQuote\<close> is the
  object under \<^verbatim>\<open>"Global Quote"\<close>, field names with their string values.
\<close>

record request =
  url :: string
  "function" :: string
  req_symbol :: string
  apikey :: string
  timeout :: nat

record response_data =
  ErrorMessage :: "string option"
  Note :: "string option"
  GlobalQuote :: "(string \<times> string) list option"

datatype error = Error (message: string)

datatype call = DynamoGet get_params | DynamoPut put_params | AxiosGet request

text \<open>
  The world outside the handler: the tables of the key-value store, the clock
  (\<^verbatim>\<open>Date.now()\<close>, milliseconds), the rejections of the store, the answers of the provider,
  the two number parsers, and the log of the external calls made so far.
  The clock stands still during one invocation.
\<close>

record world =
  tables :: "string \<Rightarrow> (string \<times> string) list \<Rightarrow> item option"
  clock :: int
  get_fault :: "get_params \<Rightarrow> error option"
  put_fault :: "put_params \<Rightarrow> error option"
  provider :: "request \<Rightarrow> error + response_data"
  parseFloat :: "string \<Rightarrow> number"
  parseInt :: "string \<Rightarrow> number"
  calls :: "call list"

text \<open>The module constants read from the process environment.\<close>

record config =
  CACHE_TABLE :: string
  CACHE_TTL :: int
  API_KEY :: "string option"

definition DEFAULT_SYMBOLS :: "string list" where
  "DEFAULT_SYMBOLS =
     [''AAPL'', ''MSFT'', ''AMZN'', ''NVDA'', ''TSLA'', ''META'', ''GOOGL'', ''BRK.B'', ''JPM'', ''JNJ'']"

text \<open>
  The trigger. \<open>pathParameters\<close> and \<open>queryStringParameters\<close> are absent (or null) or
  objects of strings; \<^verbatim>\<open>event.symbols\<close> is absent, a string or an array of strings.
\<close>

datatype symbols_field = Absent | Text string | Array "string list"

record event =
  pathParameters :: "(string \<times> string) list option"
  queryStringParameters :: "(string \<times> string) list option"
  symbols :: symbols_field

text \<open>
  The handler's reply. \<open>body\<close> is the object handed to \<^verbatim>\<open>JSON.stringify\<close>, field by field
  in the order of the object literal.
\<close>

datatype field_value =
    FBool bool
  | FStr string
  | FNum nat
  | FQuote quote_result
  | FQuotes "quote_result list"

record response =
  statusCode :: nat
  headers :: "(string \<times> string) list"
  body :: "(string \<times> field_value) list"

section \<open>External calls\<close>

definition Date_now :: "world \<Rightarrow> int" where
  "Date_now w = clock w"

text \<open>\<^verbatim>\<open>Math.floor(Date.now() / 1000)\<close>\<close>

definition now_seconds :: "world \<Rightarrow> int" where
  "now_seconds w = Date_now w div 1000"

definition dynamodb_get :: "get_params \<Rightarrow> world \<Rightarrow> (error + item option) \<times> world" where
  "dynamodb_get params w =
     (let w' = w\<lparr>calls := calls w @ [DynamoGet params]\<rparr> in
      case get_fault w params of
        Some e \<Rightarrow> (Inl e, w')
      | None \<Rightarrow> (Inr (tables w (TableName params) (Key params)), w'))"

text \<open>A rejected put writes nothing.\<close>

definition dynamodb_put :: "put_params \<Rightarrow> world \<Rightarrow> (error + unit) \<times> world" where
  "dynamodb_put params w =
     (let w' = w\<lparr>calls := calls w @ [DynamoPut params]\<rparr> in
      case put_fault w params of
        Some e \<Rightarrow> (Inl e, w')
      | None \<Rightarrow>
          (Inr (),
           w'\<lparr>tables := (tables w)
                  (PutTableName params :=
                     (tables w (PutTableName params))(key (Item params) \<mapsto> Item params))\<rparr>))"

definition axios_get :: "request \<Rightarrow> world \<Rightarrow> (error + response_data) \<times> world" where
  "axios_get req w = (provider w req, w\<lparr>calls := calls w @ [AxiosGet req]\<rparr>)"

section \<open>The handler of \<^verbatim>\<open>backend/lambdas/stock-data-fetcher/index.js\<close>\<close>

definition successResponse :: "(string \<times> field_value) list \<Rightarrow> response" where
  "successResponse b =
     \<lparr>statusCode = 200,
      headers = [(''Content-Type'', ''application/json''),
                 (''Access-Control-Allow-Origin'', ''*''),
                 (''Access-Control-Allow-Headers'', ''Content-Type, Authorization''),
                 (''Access-Control-Allow-Methods'', ''GET,OPTIONS'')],
      body = b\<rparr>"

definition errorResponse :: "string \<Rightarrow> world \<Rightarrow> response" where
  "errorResponse msg w =
     \<lparr>statusCode = 400,
      headers = [(''Content-Type'', ''application/json''),
                 (''Access-Control-Allow-Origin'', ''*'')],
      body = [(''success'', FBool False),
              (''error'', FStr msg),
              (''timestamp'', FStr (toISOString (Date_now w)))]\<rparr>"

text \<open>
  \<^verbatim>\<open>getFromCache\<close>: the rejection of \<^verbatim>\<open>dynamodb.get\<close> is caught and answered with null
  (\<open>None\<close>), like a missing item and an item whose \<^verbatim>\<open>ttl\<close> is not in the future.
\<close>

definition getFromCache :: "config \<Rightarrow> string \<Rightarrow> world \<Rightarrow> quote option \<times> world" where
  "getFromCache cfg sy w =
     (let params = \<lparr>TableName = CACHE_TABLE cfg,
                     Key = [(''symbol'', sy), (''dataType'', ''quote'')]\<rparr>
      in case dynamodb_get params w of
           (Inl err, w') \<Rightarrow> (None, w')
         | (Inr None, w') \<Rightarrow> (None, w')
         | (Inr (Some it), w') \<Rightarrow>
             (if ttl it > now_seconds w' then (Some (data it), w') else (None, w')))"

text \<open>\<^verbatim>\<open>saveToCache\<close>: the rejection of \<^verbatim>\<open>dynamodb.put\<close> is caught and logged only.\<close>

definition saveToCache :: "config \<Rightarrow> string \<Rightarrow> quote \<Rightarrow> world \<Rightarrow> world" where
  "saveToCache cfg sy d w =
     (let now = now_seconds w;
          params = \<lparr>PutTableName = CACHE_TABLE cfg,
                     Item = \<lparr>key = [(''symbol'', sy), (''dataType'', ''quote'')],
                             data = d,
                             ttl = now + CACHE_TTL cfg,
                             timestamp = now,
                             updatedAt = toISOString (Date_now w)\<rparr>\<rparr>
      in case dynamodb_put params w of
           (Inl err, w') \<Rightarrow> w'
         | (Inr u, w') \<Rightarrow> w')"

text \<open>\<^verbatim>\<open>parseFloat(x)\<close> and \<^verbatim>\<open>parseInt(x)\<close> of a field that may be missing: undefined gives NaN.\<close>

definition parse_float :: "world \<Rightarrow> string option \<Rightarrow> number" where
  "parse_float w x = (case x of None \<Rightarrow> NaN | Some s \<Rightarrow> parseFloat w s)"

definition parse_int :: "world \<Rightarrow> string option \<Rightarrow> number" where
  "parse_int w x = (case x of None \<Rightarrow> NaN | Some s \<Rightarrow> parseInt w s)"

text \<open>\<^verbatim>\<open>x || ""\<close> of a string field that may be missing.\<close>

definition or_empty :: "string option \<Rightarrow> string" where
  "or_empty x = (if truthy x then the x else '''')"

text \<open>
  The \<^verbatim>\<open>try\<close> block of \<^verbatim>\<open>fetchFromAlphaVantage\<close>: every \<^verbatim>\<open>throw\<close> and the rejection of
  \<^verbatim>\<open>axios.get\<close> is an \<open>Inl\<close>.
\<close>

definition fetchFromAlphaVantage_try ::
  "config \<Rightarrow> string \<Rightarrow> world \<Rightarrow> (error + quote) \<times> world" where
  "fetchFromAlphaVantage_try cfg sy w =
     (if \<not> truthy (API_KEY cfg) then (Inl (Error ''ALPHA_VANTAGE_API_KEY not configured''), w)
      else
        let req = \<lparr>url = ''https://www.alphavantage.co/query'',
                   function = ''GLOBAL_QUOTE'',
                   req_symbol = sy,
                   apikey = the (API_KEY cfg),
                   timeout = 10000\<rparr>
        in case axios_get req w of
             (Inl err, w') \<Rightarrow> (Inl err, w')
           | (Inr rdata, w') \<Rightarrow>
               (if truthy (ErrorMessage rdata) then (Inl (Error (the (ErrorMessage rdata))), w')
                else if truthy (Note rdata) then (Inl (Error ''API rate limit exceeded''), w')
                else
                  (case GlobalQuote rdata of
                     None \<Rightarrow> (Inl (Error ''No data found''), w')
                   | Some g \<Rightarrow>
                       (if length (map fst g) = 0 then (Inl (Error ''No data found''), w')
                        else
                          (Inr \<lparr>symbol = sy,
                                price = or_zero (parse_float w' (map_of g ''05. price'')),
                                change = or_zero (parse_float w' (map_of g ''09. change'')),
                                changePct = or_zero (parse_float w'
                                   (map_option replace_percent (map_of g ''10. change percent''))),
                                volume = or_zero (parse_int w' (map_of g ''06. volume'')),
                                latestTradingDay = or_empty (map_of g ''07. latest trading day''),
                                previousClose =
                                  or_zero (parse_float w' (map_of g ''08. previous close'')),
                                open = or_zero (parse_float w' (map_of g ''02. open'')),
                                high = or_zero (parse_float w' (map_of g ''03. high'')),
                                low = or_zero (parse_float w' (map_of g ''04. low''))\<rparr>,
                           w')))))"

text \<open>The \<^verbatim>\<open>catch\<close> of \<^verbatim>\<open>fetchFromAlphaVantage\<close> turns every error into null.\<close>

definition fetchFromAlphaVantage :: "config \<Rightarrow> string \<Rightarrow> world \<Rightarrow> quote option \<times> world" where
  "fetchFromAlphaVantage cfg sy w =
     (case fetchFromAlphaVantage_try cfg sy w of
        (Inl err, w') \<Rightarrow> (None, w')
      | (Inr q, w') \<Rightarrow> (Some q, w'))"

text \<open>
  \<^verbatim>\<open>fetchQuoteWithCache\<close>. The three functions it awaits catch their own errors, so
  nothing reaches its own \<^verbatim>\<open>catch\<close>.
\<close>

definition fetchQuoteWithCache ::
  "config \<Rightarrow> string \<Rightarrow> world \<Rightarrow> quote_result option \<times> world" where
  "fetchQuoteWithCache cfg sy w =
     (case getFromCache cfg sy w of
        (Some c, w1) \<Rightarrow> (Some (spread_cached c True), w1)
      | (None, w1) \<Rightarrow>
          (case fetchFromAlphaVantage cfg sy w1 of
             (None, w2) \<Rightarrow> (None, w2)
           | (Some q, w2) \<Rightarrow> (Some (spread_cached q False), saveToCache cfg sy q w2)))"

text \<open>
  \<^verbatim>\<open>Promise.all(symbols.map(f))\<close>: one call of \<open>f\<close> per element, started in array order,
  the results in array order. The calls are run one after the other in that order.
\<close>

fun Promise_all_map :: "('a \<Rightarrow> world \<Rightarrow> 'b \<times> world) \<Rightarrow> 'a list \<Rightarrow> world \<Rightarrow> 'b list \<times> world" where
  "Promise_all_map f [] w = ([], w)"
| "Promise_all_map f (x # xs) w =
     (case f x w of (y, w1) \<Rightarrow>
        (case Promise_all_map f xs w1 of (ys, w2) \<Rightarrow> (y # ys, w2)))"

text \<open>\<^verbatim>\<open>event.pathParameters.symbol\<close> and \<^verbatim>\<open>event.queryStringParameters.symbols\<close>, guarded by \<^verbatim>\<open>&&\<close>.\<close>

definition path_symbol :: "event \<Rightarrow> string option" where
  "path_symbol ev = (case pathParameters ev of None \<Rightarrow> None | Some ps \<Rightarrow> map_of ps ''symbol'')"

definition query_symbols :: "event \<Rightarrow> string option" where
  "query_symbols ev =
     (case queryStringParameters ev of None \<Rightarrow> None | Some qs \<Rightarrow> map_of qs ''symbols'')"

text \<open>
  The handler answers with a single quote exactly when the path symbol is there: it tests
  \<^verbatim>\<open>event.pathParameters && event.pathParameters.symbol\<close> a second time.
\<close>

datatype responseShape = SINGLE | MULTI

definition response_shape :: "event \<Rightarrow> responseShape" where
  "response_shape ev = (if truthy (path_symbol ev) then SINGLE else MULTI)"

text \<open>
  The value of \<^verbatim>\<open>symbols\<close> after the four-way branch of the handler. An empty path symbol
  or query parameter is falsy and falls through to the next branch.
\<close>

definition requested_symbols :: "event \<Rightarrow> string list" where
  "requested_symbols ev =
     (if truthy (path_symbol ev) then [toUpperCase (trim (the (path_symbol ev)))]
      else if truthy (query_symbols ev)
      then map (\<lambda>s. toUpperCase (trim s)) (split (CHR '','') (the (query_symbols ev)))
      else (case symbols ev of
              Array xs \<Rightarrow> map (\<lambda>s. toUpperCase (trim s)) xs
            | _ \<Rightarrow> DEFAULT_SYMBOLS))"

text \<open>
  The handler. On a trigger of the shape above no statement of its \<^verbatim>\<open>try\<close> block throws
  (\<^verbatim>\<open>fetchQuoteWithCache\<close> never rejects, so neither does \<^verbatim>\<open>Promise.all\<close>): its \<^verbatim>\<open>catch\<close> is
  not reached.
\<close>

definition handler :: "config \<Rightarrow> event \<Rightarrow> world \<Rightarrow> response \<times> world" where
  "handler cfg ev w =
     (let syms = requested_symbols ev in
      if length syms = 0 then (errorResponse ''No symbols provided.'' w, w)
      else
        case Promise_all_map (fetchQuoteWithCache cfg) syms w of (quotes, w') \<Rightarrow>
          (let validQuotes = map the (filter (\<lambda>q. q \<noteq> None) quotes) in
           if response_shape ev = SINGLE then
             (if length validQuotes = 0
              then (errorResponse (''Stock symbol '' @ [CHR 0x27] @ syms ! 0 @ [CHR 0x27]
                                   @ '' not found.'') w', w')
              else (successResponse
                      [(''symbol'', FStr (syms ! 0)),
                       (''quote'', FQuote (validQuotes ! 0)),
                       (''cached'', FBool (cached (validQuotes ! 0) \<or> False))], w'))
           else (successResponse
                   [(''quotes'', FQuotes validQuotes),
                    (''timestamp'', FStr (toISOString (Date_now w'))),
                    (''cached'', FNum (length (filter (\<lambda>q. cached q) validQuotes))),
                    (''fresh'', FNum (length (filter (\<lambda>q. \<not> cached q) validQuotes)))], w')))"

section \<open>The second handler\<close>


text \<open>\<^verbatim>\<open>new Date().toISOString().split('T')[0]\<close>\<close>

definition today :: "world \<Rightarrow> string" where
  "today w = (case split (CHR ''T'') (toISOString (Date_now w)) of [] \<Rightarrow> [] | x # xs \<Rightarrow> x)"








section \<open>Vocabulary of the properties\<close>

text \<open>The request that \<^verbatim>\<open>getFromCache\<close> sends for a symbol, and the one \<^verbatim>\<open>saveToCache\<close> sends.\<close>

definition cache_key :: "string \<Rightarrow> (string \<times> string) list" where
  "cache_key sy = [(''symbol'', sy), (''dataType'', ''quote'')]"

definition lookup_request :: "config \<Rightarrow> string \<Rightarrow> get_params" where
  "lookup_request cfg sy = \<lparr>TableName = CACHE_TABLE cfg, Key = cache_key sy\<rparr>"

definition store_request :: "config \<Rightarrow> string \<Rightarrow> quote \<Rightarrow> world \<Rightarrow> put_params" where
  "store_request cfg sy d w =
     \<lparr>PutTableName = CACHE_TABLE cfg,
      Item = \<lparr>key = cache_key sy,
              data = d,
              ttl = now_seconds w + CACHE_TTL cfg,
              timestamp = now_seconds w,
              updatedAt = toISOString (Date_now w)\<rparr>\<rparr>"

definition provider_request :: "config \<Rightarrow> string \<Rightarrow> request" where
  "provider_request cfg sy =
     \<lparr>url = ''https://www.alphavantage.co/query'',
      function = ''GLOBAL_QUOTE'',
      req_symbol = sy,
      apikey = the (API_KEY cfg),
      timeout = 10000\<rparr>"

text \<open>The same for the second handler, whose sort key is today's date.\<close>

definition cache_key2 :: "string \<Rightarrow> world \<Rightarrow> (string \<times> string) list" where
  "cache_key2 sy w = [(''symbol'', sy), (''date'', today w)]"

text \<open>The entry that a lookup of the symbol reads, if the store answers.\<close>

definition cache_entry :: "config \<Rightarrow> string \<Rightarrow> world \<Rightarrow> item option" where
  "cache_entry cfg sy w = tables w (CACHE_TABLE cfg) (cache_key sy)"


text \<open>An entry is fresh when its expiry is in the future.\<close>

definition fresh :: "world \<Rightarrow> item \<Rightarrow> bool" where
  "fresh w it = (now_seconds w < ttl it)"

text \<open>
  The kinds of provider error: the \<^verbatim>\<open>try\<close> block of \<^verbatim>\<open>fetchFromAlphaVantage\<close> throws on a
  missing credential, a rejected request (transport failure), an \<^verbatim>\<open>Error Message\<close>
  (upstream error), a \<^verbatim>\<open>Note\<close> (rate limit), a missing or empty \<^verbatim>\<open>Global Quote\<close> (no data).
\<close>

datatype error_kind = MissingCredential | TransportFailure | UpstreamError | RateLimit | NoData

definition provider_error :: "config \<Rightarrow> string \<Rightarrow> world \<Rightarrow> error_kind option" where
  "provider_error cfg sy w =
     (if \<not> truthy (API_KEY cfg) then Some MissingCredential
      else case provider w (provider_request cfg sy) of
             Inl err \<Rightarrow> Some TransportFailure
           | Inr rdata \<Rightarrow>
               (if truthy (ErrorMessage rdata) then Some UpstreamError
                else if truthy (Note rdata) then Some RateLimit
                else if GlobalQuote rdata = None \<or> GlobalQuote rdata = Some [] then Some NoData
                else None))"

text \<open>The outcomes of the fan-out over the requested symbols, in array order.\<close>

definition outcomes :: "config \<Rightarrow> string list \<Rightarrow> world \<Rightarrow> quote_result option list" where
  "outcomes cfg syms w = fst (Promise_all_map (fetchQuoteWithCache cfg) syms w)"


text \<open>The world in which the resolution at position \<open>i\<close> runs.\<close>

definition world_before :: "config \<Rightarrow> string list \<Rightarrow> nat \<Rightarrow> world \<Rightarrow> world" where
  "world_before cfg syms i w = snd (Promise_all_map (fetchQuoteWithCache cfg) (take i syms) w)"

text \<open>A field of the reply's payload.\<close>

definition payload :: "response \<Rightarrow> string \<Rightarrow> field_value option" where
  "payload r name = map_of (body r) name"






section \<open>Example inputs\<close>

text \<open>
  A configuration, a provider that has a price for every symbol and a world with empty
  tables and no failure, at 2023-11-14T22:13:20Z.
\<close>

definition example_config :: config where
  "example_config = \<lparr>CACHE_TABLE = ''stock-price-cache'', CACHE_TTL = 45, API_KEY = Some ''demo''\<rparr>"

definition example_provider :: "request \<Rightarrow> error + response_data" where
  "example_provider req =
     Inr \<lparr>ErrorMessage = None, Note = None,
          GlobalQuote = Some [(''01. symbol'', req_symbol req), (''05. price'', ''189.50'')]\<rparr>"

definition example_world :: world where
  "example_world =
     \<lparr>tables = (\<lambda>t k. None),
      clock = 1700000000000,
      get_fault = (\<lambda>p. None),
      put_fault = (\<lambda>p. None),
      provider = example_provider,
      parseFloat = (\<lambda>s. if s = ''189.50'' then Num (379 / 2) else NaN),
      parseInt = (\<lambda>s. NaN),
      calls = []\<rparr>"

definition example_quote :: "string \<Rightarrow> quote" where
  "example_quote sy =
     \<lparr>symbol = sy, price = Num (379 / 2), change = Num 0, changePct = Num 0, volume = Num 0,
      latestTradingDay = '''', previousClose = Num 0, open = Num 0, high = Num 0, low = Num 0\<rparr>"

text \<open>An entry for a symbol that expires at the given second.\<close>

definition example_item :: "string \<Rightarrow> int \<Rightarrow> item" where
  "example_item sy expiry =
     \<lparr>key = cache_key sy, data = example_quote sy, ttl = expiry, timestamp = expiry - 45,
      updatedAt = ''''\<rparr>"

text \<open>The example world with one entry in the cache table.\<close>

definition example_world_with :: "item \<Rightarrow> world" where
  "example_world_with it =
     example_world\<lparr>tables := (\<lambda>t k. if t = ''stock-price-cache'' \<and> k = key it then Some it else None)\<rparr>"

text \<open>The example world with a provider that answers every request the same way.\<close>

definition example_world_answering :: "error + response_data \<Rightarrow> world" where
  "example_world_answering r = example_world\<lparr>provider := (\<lambda>req. r)\<rparr>"

text \<open>A trigger with the given path symbol, query parameter and \<^verbatim>\<open>symbols\<close> field.\<close>

definition example_event :: "string option \<Rightarrow> string option \<Rightarrow> symbols_field \<Rightarrow> event" where
  "example_event p q l =
     \<lparr>pathParameters = map_option (\<lambda>s. [(''symbol'', s)]) p,
      queryStringParameters = map_option (\<lambda>s. [(''symbols'', s)]) q,
      symbols = l\<rparr>"

text \<open>The provider's answer without a quote, and a world whose provider rejects one symbol.\<close>

definition example_no_data :: "error + response_data" where
  "example_no_data = Inr \<lparr>ErrorMessage = None, Note = None, GlobalQuote = None\<rparr>"


section \<open>Dates\<close>




section \<open>The cache: lookup and store\<close>

lemma now_seconds_calls [simp]: "now_seconds (w\<lparr>calls := c\<rparr>) = now_seconds w"
  by (simp add: now_seconds_def Date_now_def)

lemma getFromCache_eq:
  "getFromCache cfg s w =
     (if get_fault w (lookup_request cfg s) = None
      then (case cache_entry cfg s w of
              None \<Rightarrow> None
            | Some it \<Rightarrow> if fresh w it then Some (data it) else None)
      else None,
      w\<lparr>calls := calls w @ [DynamoGet (lookup_request cfg s)]\<rparr>)"
  by (auto simp: getFromCache_def dynamodb_get_def lookup_request_def cache_key_def
      cache_entry_def fresh_def Let_def split: option.splits)

lemma saveToCache_eq:
  "saveToCache cfg s q w =
     (if put_fault w (store_request cfg s q w) = None
      then w\<lparr>calls := calls w @ [DynamoPut (store_request cfg s q w)],
             tables := (tables w)(CACHE_TABLE cfg :=
                (tables w (CACHE_TABLE cfg))(cache_key s \<mapsto> Item (store_request cfg s q w)))\<rparr>
      else w\<lparr>calls := calls w @ [DynamoPut (store_request cfg s q w)]\<rparr>)"
  by (auto simp: saveToCache_def dynamodb_put_def store_request_def cache_key_def Let_def
      split: option.splits)


lemma fetchFromAlphaVantage_try_world:
  "snd (fetchFromAlphaVantage_try cfg s w) =
     (if truthy (API_KEY cfg) then w\<lparr>calls := calls w @ [AxiosGet (provider_request cfg s)]\<rparr> else w)"
  by (auto simp: fetchFromAlphaVantage_try_def axios_get_def provider_request_def Let_def
      split: sum.splits option.splits)

lemma fetchFromAlphaVantage_try_calls:
  "fst (fetchFromAlphaVantage_try cfg s (w\<lparr>calls := c\<rparr>)) = fst (fetchFromAlphaVantage_try cfg s w)"
  by (auto simp: fetchFromAlphaVantage_try_def axios_get_def parse_float_def parse_int_def Let_def
      split: sum.splits option.splits)

lemma fetchFromAlphaVantage_eq:
  "fetchFromAlphaVantage cfg s w =
     (case fst (fetchFromAlphaVantage_try cfg s w) of Inl e \<Rightarrow> None | Inr q \<Rightarrow> Some q,
      snd (fetchFromAlphaVantage_try cfg s w))"
  by (simp add: fetchFromAlphaVantage_def split: prod.splits sum.splits)

lemma provider_error_iff:
  "(provider_error cfg s w = None) = (\<not> isl (fst (fetchFromAlphaVantage_try cfg s w)))"
  by (auto simp: provider_error_def fetchFromAlphaVantage_try_def axios_get_def
      provider_request_def Let_def split: sum.splits option.splits)


text \<open>
  Claim C2. The cache lookup returns the stored quote if and only if the store answers, an
  entry exists under the symbol and \<^verbatim>\<open>'quote'\<close>, and its expiry is strictly greater than
  now. A store failure, a missing entry and an entry whose expiry is now or earlier all give
  the same result: null, and the world with the one read logged.
\<close>

theorem getFromCache_lookup:
  "(fst (getFromCache cfg s w) = Some q \<longleftrightarrow>
      get_fault w (lookup_request cfg s) = None \<and>
      (\<exists>it. cache_entry cfg s w = Some it \<and> now_seconds w < ttl it \<and> data it = q))
   \<and> (get_fault w (lookup_request cfg s) \<noteq> None
        \<or> cache_entry cfg s w = None
        \<or> (\<exists>it. cache_entry cfg s w = Some it \<and> ttl it \<le> now_seconds w)
      \<longrightarrow> getFromCache cfg s w =
            (None, w\<lparr>calls := calls w @ [DynamoGet (lookup_request cfg s)]\<rparr>))"
  by (auto simp: getFromCache_eq fresh_def split: option.splits)

theorem getFromCache_lookup_witness:
  "fst (getFromCache example_config ''AAPL'' (example_world_with (example_item ''AAPL'' 1700000001)))
     = Some (example_quote ''AAPL'')
   \<and> fst (getFromCache example_config ''AAPL'' (example_world_with (example_item ''AAPL'' 1700000000)))
     = None"
proof -
  let ?w1 = "example_world_with (example_item ''AAPL'' 1700000001)"
  let ?w0 = "example_world_with (example_item ''AAPL'' 1700000000)"
  have 1: "get_fault ?w1 (lookup_request example_config ''AAPL'') = None \<and>
      (\<exists>it. cache_entry example_config ''AAPL'' ?w1 = Some it \<and> now_seconds ?w1 < ttl it
         \<and> data it = example_quote ''AAPL'')"
    by (simp add: example_world_with_def example_world_def example_item_def example_config_def
        cache_entry_def cache_key_def now_seconds_def Date_now_def)
  have 0: "\<exists>it. cache_entry example_config ''AAPL'' ?w0 = Some it \<and> ttl it \<le> now_seconds ?w0"
    by (simp add: example_world_with_def example_world_def example_item_def example_config_def
        cache_entry_def cache_key_def now_seconds_def Date_now_def)
  from 1 0 show ?thesis
    using getFromCache_lookup [of example_config "''AAPL''" ?w1 "example_quote ''AAPL''"]
      getFromCache_lookup [of example_config "''AAPL''" ?w0 "example_quote ''AAPL''"]
    by simp
qed

section \<open>The cache-aside resolution of one symbol\<close>

lemma cached_spread_cached [simp]: "cached (spread_cached q c) = c"
  by (simp add: spread_cached_def quote.defs quote_result.defs)

lemma truncate_spread_cached [simp]: "quote.truncate (spread_cached q c) = q"
  by (simp add: spread_cached_def quote.defs quote_result.defs)

lemma fetchQuoteWithCache_eq:
  "fetchQuoteWithCache cfg s w =
     (case fst (getFromCache cfg s w) of
        Some c \<Rightarrow> (Some (spread_cached c True), snd (getFromCache cfg s w))
      | None \<Rightarrow>
          (case fst (fetchFromAlphaVantage cfg s w) of
             None \<Rightarrow> (None, snd (fetchFromAlphaVantage cfg s (snd (getFromCache cfg s w))))
           | Some q \<Rightarrow>
               (Some (spread_cached q False),
                saveToCache cfg s q (snd (fetchFromAlphaVantage cfg s (snd (getFromCache cfg s w)))))))"
  by (simp add: fetchQuoteWithCache_def getFromCache_eq fetchFromAlphaVantage_eq
      fetchFromAlphaVantage_try_calls split: prod.splits option.splits sum.splits)



lemmas example_defs =
  example_world_with_def example_world_answering_def example_world_def example_item_def
  example_config_def example_provider_def example_quote_def



text \<open>
  Claim C8. Round trip: after \<^verbatim>\<open>saveToCache\<close> has stored a quote for a symbol, a lookup of
  the symbol in any world that holds the tables as the store left them, at any time
  strictly before the stored expiry, returns that quote. With a positive \<^verbatim>\<open>CACHE_TTL\<close> the
  moment of the store itself is such a time.
\<close>

theorem save_then_lookup:
  assumes "put_fault w (store_request cfg s q w) = None"
    and "tables w2 = tables (saveToCache cfg s q w)"
    and "get_fault w2 (lookup_request cfg s) = None"
    and "now_seconds w2 < now_seconds w + CACHE_TTL cfg"
  shows "fst (getFromCache cfg s w2) = Some q"
  using assms
  by (simp add: getFromCache_eq saveToCache_eq cache_entry_def fresh_def store_request_def)





theorem save_then_lookup_witness:
  "fst (getFromCache example_config ''AAPL''
         (saveToCache example_config ''AAPL'' (example_quote ''AAPL'') example_world))
     = Some (example_quote ''AAPL'')"
proof -
  let ?w = "example_world"
  let ?w2 = "saveToCache example_config ''AAPL'' (example_quote ''AAPL'') example_world"
  have 1: "put_fault ?w (store_request example_config ''AAPL'' (example_quote ''AAPL'') ?w) = None"
    by (simp add: example_world_def)
  have 2: "tables ?w2 = tables ?w2"
    by simp
  have 3: "get_fault ?w2 (lookup_request example_config ''AAPL'') = None"
    by (simp add: saveToCache_eq example_world_def)
  have 4: "now_seconds ?w2 < now_seconds ?w + CACHE_TTL example_config"
    by (simp add: saveToCache_eq example_world_def example_config_def now_seconds_def Date_now_def)
  show ?thesis
    by (rule save_then_lookup [OF 1 2 3 4])
qed

section \<open>The handler: fan-out and reply\<close>

lemma Promise_all_map_Cons:
  "Promise_all_map f (x # xs) w =
     (fst (f x w) # fst (Promise_all_map f xs (snd (f x w))),
      snd (Promise_all_map f xs (snd (f x w))))"
  by (simp split: prod.splits)

declare Promise_all_map.simps(2) [simp del]


lemma length_Promise_all_map [simp]: "length (fst (Promise_all_map f xs w)) = length xs"
  by (induction xs arbitrary: w) (simp_all add: Promise_all_map_Cons)


lemma handler_eq:
  "handler cfg ev w =
     (if requested_symbols ev = [] then (errorResponse ''No symbols provided.'' w, w)
      else
        (if response_shape ev = SINGLE then
           (if filter (\<lambda>q. q \<noteq> None) (outcomes cfg (requested_symbols ev) w) = []
            then errorResponse (''Stock symbol '' @ [CHR 0x27] @ requested_symbols ev ! 0
                                @ [CHR 0x27] @ '' not found.'')
                   (world_before cfg (requested_symbols ev) (length (requested_symbols ev)) w)
            else successResponse
                   [(''symbol'', FStr (requested_symbols ev ! 0)),
                    (''quote'', FQuote (map the (filter (\<lambda>q. q \<noteq> None)
                                   (outcomes cfg (requested_symbols ev) w)) ! 0)),
                    (''cached'', FBool (cached (map the (filter (\<lambda>q. q \<noteq> None)
                                   (outcomes cfg (requested_symbols ev) w)) ! 0)))])
         else successResponse
                [(''quotes'', FQuotes (map the (filter (\<lambda>q. q \<noteq> None)
                                   (outcomes cfg (requested_symbols ev) w)))),
                 (''timestamp'', FStr (toISOString (Date_now
                    (world_before cfg (requested_symbols ev) (length (requested_symbols ev)) w)))),
                 (''cached'', FNum (length (filter (\<lambda>q. cached q)
                    (map the (filter (\<lambda>q. q \<noteq> None) (outcomes cfg (requested_symbols ev) w)))))),
                 (''fresh'', FNum (length (filter (\<lambda>q. \<not> cached q)
                    (map the (filter (\<lambda>q. q \<noteq> None) (outcomes cfg (requested_symbols ev) w))))))],
         world_before cfg (requested_symbols ev) (length (requested_symbols ev)) w))"
  by (simp add: handler_def outcomes_def world_before_def Let_def split: prod.splits)


lemma filter_all_None:
  "(\<forall>r\<in>set os. r = None) \<Longrightarrow> filter (\<lambda>q. q \<noteq> None) os = []"
  by (induction os) auto

text \<open>
  Claim C5. With the single shape and no outcome but null, the reply is the error payload:
  status 400, \<^verbatim>\<open>success: false\<close> and the error \<^verbatim>\<open>Stock symbol '<symbol>' not found.\<close>, naming
  the requested symbol (the path symbol, trimmed and in upper case). With the multi shape,
  when the fan-out has run and every outcome is null, the reply is a success payload with
  an empty list of quotes and \<^verbatim>\<open>cached: 0\<close>, \<^verbatim>\<open>fresh: 0\<close>, and no error field.
\<close>

theorem handler_nothing_found:
  "(response_shape ev = SINGLE \<and> (\<forall>r\<in>set (outcomes cfg (requested_symbols ev) w). r = None) \<longrightarrow>
      statusCode (fst (handler cfg ev w)) = 400
      \<and> payload (fst (handler cfg ev w)) ''success'' = Some (FBool False)
      \<and> payload (fst (handler cfg ev w)) ''error'' =
          Some (FStr (''Stock symbol '' @ [CHR 0x27] @ toUpperCase (trim (the (path_symbol ev)))
                      @ [CHR 0x27] @ '' not found.'')))
   \<and> (response_shape ev = MULTI \<and> requested_symbols ev \<noteq> []
        \<and> (\<forall>r\<in>set (outcomes cfg (requested_symbols ev) w). r = None) \<longrightarrow>
      statusCode (fst (handler cfg ev w)) = 200
      \<and> payload (fst (handler cfg ev w)) ''quotes'' = Some (FQuotes [])
      \<and> payload (fst (handler cfg ev w)) ''cached'' = Some (FNum 0)
      \<and> payload (fst (handler cfg ev w)) ''fresh'' = Some (FNum 0)
      \<and> payload (fst (handler cfg ev w)) ''error'' = None)"
proof (intro conjI impI)
  assume a: "response_shape ev = SINGLE \<and> (\<forall>r\<in>set (outcomes cfg (requested_symbols ev) w). r = None)"
  then have syms: "requested_symbols ev = [toUpperCase (trim (the (path_symbol ev)))]"
    by (simp add: response_shape_def requested_symbols_def split: if_splits)
  from a have f: "filter (\<lambda>q. q \<noteq> None) (outcomes cfg (requested_symbols ev) w) = []"
    by (simp add: filter_all_None)
  show "statusCode (fst (handler cfg ev w)) = 400"
    using a f syms by (simp add: handler_eq errorResponse_def)
  show "payload (fst (handler cfg ev w)) ''success'' = Some (FBool False)"
    using a f syms by (simp add: handler_eq errorResponse_def payload_def)
  show "payload (fst (handler cfg ev w)) ''error'' =
          Some (FStr (''Stock symbol '' @ [CHR 0x27] @ toUpperCase (trim (the (path_symbol ev)))
                      @ [CHR 0x27] @ '' not found.''))"
    using a f syms by (simp add: handler_eq errorResponse_def payload_def)
next
  assume a: "response_shape ev = MULTI \<and> requested_symbols ev \<noteq> []
        \<and> (\<forall>r\<in>set (outcomes cfg (requested_symbols ev) w). r = None)"
  then have f: "filter (\<lambda>q. q \<noteq> None) (outcomes cfg (requested_symbols ev) w) = []"
    by (simp add: filter_all_None)
  show "statusCode (fst (handler cfg ev w)) = 200"
    using a f by (simp add: handler_eq successResponse_def)
  show "payload (fst (handler cfg ev w)) ''quotes'' = Some (FQuotes [])"
    using a f by (simp add: handler_eq successResponse_def payload_def)
  show "payload (fst (handler cfg ev w)) ''cached'' = Some (FNum 0)"
    using a f by (simp add: handler_eq successResponse_def payload_def)
  show "payload (fst (handler cfg ev w)) ''fresh'' = Some (FNum 0)"
    using a f by (simp add: handler_eq successResponse_def payload_def)
  show "payload (fst (handler cfg ev w)) ''error'' = None"
    using a f by (simp add: handler_eq successResponse_def payload_def)
qed

lemma split_not_Nil [simp]: "split c s \<noteq> []"
  by (induction s) (auto split: list.splits)

lemma requested_symbols_Nil:
  "requested_symbols ev = [] \<longleftrightarrow>
     \<not> truthy (path_symbol ev) \<and> \<not> truthy (query_symbols ev) \<and> symbols ev = Array []"
  by (auto simp: requested_symbols_def DEFAULT_SYMBOLS_def split: symbols_field.splits)

text \<open>
  Claim C7. The reply carries the error \<^verbatim>\<open>No symbols provided.\<close> exactly when the resolved
  symbol sequence is empty, and the sequence is empty exactly when neither a path symbol
  nor a query parameter is there and \<^verbatim>\<open>event.symbols\<close> is the empty array: an explicit empty
  list was supplied.
\<close>

theorem handler_no_symbols:
  "(payload (fst (handler cfg ev w)) ''error'' = Some (FStr ''No symbols provided.'')
      \<longleftrightarrow> requested_symbols ev = [])
   \<and> (requested_symbols ev = [] \<longrightarrow> fst (handler cfg ev w) = errorResponse ''No symbols provided.'' w)
   \<and> (requested_symbols ev = []
      \<longleftrightarrow> \<not> truthy (path_symbol ev) \<and> \<not> truthy (query_symbols ev) \<and> symbols ev = Array [])"
  by (simp add: requested_symbols_Nil [symmetric] handler_eq payload_def errorResponse_def
      successResponse_def)




lemma fetchQuoteWithCache_explicit:
  "fetchQuoteWithCache cfg s w =
     (case fst (getFromCache cfg s w) of
        Some c \<Rightarrow> (Some (spread_cached c True),
                   w\<lparr>calls := calls w @ [DynamoGet (lookup_request cfg s)]\<rparr>)
      | None \<Rightarrow>
          (case fst (fetchFromAlphaVantage cfg s w) of
             None \<Rightarrow>
               (None,
                w\<lparr>calls := calls w @ DynamoGet (lookup_request cfg s) #
                       (if truthy (API_KEY cfg) then [AxiosGet (provider_request cfg s)] else [])\<rparr>)
           | Some q \<Rightarrow>
               (Some (spread_cached q False),
                if put_fault w (store_request cfg s q w) = None
                then w\<lparr>calls := calls w @ [DynamoGet (lookup_request cfg s),
                                            AxiosGet (provider_request cfg s),
                                            DynamoPut (store_request cfg s q w)],
                       tables := (tables w)(CACHE_TABLE cfg :=
                          (tables w (CACHE_TABLE cfg))
                            (cache_key s \<mapsto> Item (store_request cfg s q w)))\<rparr>
                else w\<lparr>calls := calls w @ [DynamoGet (lookup_request cfg s),
                                            AxiosGet (provider_request cfg s),
                                            DynamoPut (store_request cfg s q w)]\<rparr>)))"
proof (cases "fst (getFromCache cfg s w)")
  case (Some c)
  then show ?thesis
    by (simp add: fetchQuoteWithCache_eq getFromCache_eq)
next
  case None
  note miss = None
  show ?thesis
  proof (cases "fst (fetchFromAlphaVantage_try cfg s w)")
    case (Inl e)
    then show ?thesis
      using miss
      by (simp add: fetchQuoteWithCache_eq fetchFromAlphaVantage_eq getFromCache_eq
          fetchFromAlphaVantage_try_world)
  next
    case (Inr q)
    then have "truthy (API_KEY cfg)"
      by (auto simp: fetchFromAlphaVantage_try_def split: if_splits)
    then show ?thesis
      using miss Inr
      by (simp add: fetchQuoteWithCache_eq fetchFromAlphaVantage_eq getFromCache_eq
          fetchFromAlphaVantage_try_world saveToCache_eq store_request_def now_seconds_def
          Date_now_def)
  qed
qed


text \<open>The log of calls has no influence on the results.\<close>

lemma fresh_calls [simp]: "fresh (w\<lparr>calls := c\<rparr>) it = fresh w it"
  by (simp add: fresh_def)








text \<open>A resolution changes the tables and the log, nothing else.\<close>

lemma fetchQuoteWithCache_frame [simp]:
  "clock (snd (fetchQuoteWithCache cfg x w)) = clock w"
  "get_fault (snd (fetchQuoteWithCache cfg x w)) = get_fault w"
  "put_fault (snd (fetchQuoteWithCache cfg x w)) = put_fault w"
  "provider (snd (fetchQuoteWithCache cfg x w)) = provider w"
  "parseFloat (snd (fetchQuoteWithCache cfg x w)) = parseFloat w"
  "parseInt (snd (fetchQuoteWithCache cfg x w)) = parseInt w"
  by (simp_all add: fetchQuoteWithCache_explicit split: option.splits)

text \<open>
  While the provider fails for a symbol, no resolution writes the symbol's entry: the
  symbol's own resolution stores nothing, another symbol's resolution stores under its own key.
\<close>

lemma cache_key_inj [simp]: "cache_key s = cache_key x \<longleftrightarrow> s = x"
  by (simp add: cache_key_def)

lemma provider_error_fetch:
  "provider_error cfg s w \<noteq> None \<Longrightarrow> fst (fetchFromAlphaVantage cfg s w) = None"
  by (cases "fst (fetchFromAlphaVantage_try cfg s w)")
    (simp_all add: provider_error_iff fetchFromAlphaVantage_eq)

lemma entry_preserved:
  assumes "provider_error cfg s w \<noteq> None"
  shows "cache_entry cfg s (snd (fetchQuoteWithCache cfg x w)) = cache_entry cfg s w"
proof (cases "x = s")
  case True
  then show ?thesis
    using provider_error_fetch [OF assms]
    by (simp add: fetchQuoteWithCache_explicit cache_entry_def split: option.splits)
next
  case False
  then show ?thesis
    by (simp add: fetchQuoteWithCache_explicit cache_entry_def split: option.splits)
qed

lemma miss_preserved:
  assumes "provider_error cfg s w \<noteq> None"
  shows "fst (getFromCache cfg s (snd (fetchQuoteWithCache cfg x w))) = fst (getFromCache cfg s w)"
  by (simp add: getFromCache_eq entry_preserved [OF assms] fresh_def now_seconds_def Date_now_def
      split: option.splits)

lemma provider_error_preserved:
  "provider_error cfg s (snd (fetchQuoteWithCache cfg x w)) = provider_error cfg s w"
  by (simp add: provider_error_def)


lemma failing_symbol_resolution:
  assumes "provider_error cfg s w \<noteq> None" and "fst (getFromCache cfg s w) = None"
  shows "fst (fetchQuoteWithCache cfg s w) = None
       \<and> snd (fetchQuoteWithCache cfg s w) = w\<lparr>calls := calls (snd (fetchQuoteWithCache cfg s w))\<rparr>"
  using assms provider_error_fetch [OF assms(1)]
  by (simp add: fetchQuoteWithCache_explicit)




section \<open>The requested symbols\<close>

lemma upper_char_cases:
  "upper_char c =
    (if c = CHR ''a'' then CHR ''A'' else if c = CHR ''b'' then CHR ''B''
     else if c = CHR ''c'' then CHR ''C'' else if c = CHR ''d'' then CHR ''D''
     else if c = CHR ''e'' then CHR ''E'' else if c = CHR ''f'' then CHR ''F''
     else if c = CHR ''g'' then CHR ''G'' else if c = CHR ''h'' then CHR ''H''
     else if c = CHR ''i'' then CHR ''I'' else if c = CHR ''j'' then CHR ''J''
     else if c = CHR ''k'' then CHR ''K'' else if c = CHR ''l'' then CHR ''L''
     else if c = CHR ''m'' then CHR ''M'' else if c = CHR ''n'' then CHR ''N''
     else if c = CHR ''o'' then CHR ''O'' else if c = CHR ''p'' then CHR ''P''
     else if c = CHR ''q'' then CHR ''Q'' else if c = CHR ''r'' then CHR ''R''
     else if c = CHR ''s'' then CHR ''S'' else if c = CHR ''t'' then CHR ''T''
     else if c = CHR ''u'' then CHR ''U'' else if c = CHR ''v'' then CHR ''V''
     else if c = CHR ''w'' then CHR ''W'' else if c = CHR ''x'' then CHR ''X''
     else if c = CHR ''y'' then CHR ''Y'' else if c = CHR ''z'' then CHR ''Z''
     else c)"
  by (simp add: upper_char_def)

lemma upper_char_idem [simp]: "upper_char (upper_char c) = upper_char c"
  by (simp add: upper_char_cases)

lemma isWhiteSpace_upper_char [simp]: "isWhiteSpace (upper_char c) = isWhiteSpace c"
  by (simp add: upper_char_cases isWhiteSpace_def)


lemma isWhiteSpace_comp_upper [simp]: "isWhiteSpace \<circ> upper_char = isWhiteSpace"
  by (simp add: fun_eq_iff)


lemma toUpperCase_idem [simp]: "toUpperCase (toUpperCase s) = toUpperCase s"
  by (simp add: toUpperCase_def)

lemma dropWhile_rev_dropWhile:
  assumes "xs = [] \<or> \<not> P (hd xs)"
  shows "dropWhile P (rev (dropWhile P (rev xs))) = rev (dropWhile P (rev xs))"
proof (cases "dropWhile P (rev xs) = []")
  case True
  show ?thesis unfolding True by simp
next
  case False
  then obtain y where y: "y \<in> set xs" "\<not> P y"
    by (metis dropWhile_eq_Nil_conv set_rev)
  then have ne: "xs \<noteq> []" by auto
  with assms have "\<not> P (hd xs)" by simp
  moreover have "hd (rev (dropWhile P (rev xs))) = hd xs"
    using False ne
    by (metis (no_types, lifting) hd_append2 rev.simps(1) rev_append rev_is_Nil_conv rev_rev_ident
        takeWhile_dropWhile_id)
  ultimately show ?thesis
    using False by (cases "rev (dropWhile P (rev xs))") auto
qed

lemma trim_idem [simp]: "trim (trim s) = trim s"
proof -
  let ?t = "dropWhile isWhiteSpace s"
  have h: "?t = [] \<or> \<not> isWhiteSpace (hd ?t)"
    by (metis hd_dropWhile)
  show ?thesis
    by (simp add: trim_def dropWhile_rev_dropWhile [of ?t isWhiteSpace, OF h])
qed







section \<open>The two handlers compared\<close>

lemma today_calls [simp]: "today (w\<lparr>calls := c\<rparr>) = today w"
  by (simp add: today_def Date_now_def)

lemma today_tables [simp]: "today (w\<lparr>tables := t\<rparr>) = today w"
  by (simp add: today_def Date_now_def)









lemma cache_key2_frame [simp]:
  "cache_key2 s (w\<lparr>calls := c\<rparr>) = cache_key2 s w"
  "cache_key2 s (w\<lparr>tables := t\<rparr>) = cache_key2 s w"
  by (simp_all add: cache_key2_def)

lemma cache_key2_inj [simp]: "cache_key2 x w = cache_key2 s w \<longleftrightarrow> x = s"
  by (simp add: cache_key2_def)









lemma path_symbol_symbols [simp]: "path_symbol (ev\<lparr>symbols := l\<rparr>) = path_symbol ev"
  by (simp add: path_symbol_def)

lemma query_symbols_symbols [simp]: "query_symbols (ev\<lparr>symbols := l\<rparr>) = query_symbols ev"
  by (simp add: query_symbols_def)


section \<open>The properties on the example inputs\<close>

lemma outcomes_all_fail:
  assumes "\<forall>s\<in>set xs. provider_error cfg s w \<noteq> None \<and> fst (getFromCache cfg s w) = None"
  shows "\<forall>r\<in>set (outcomes cfg xs w). r = None"
  using assms
proof (induction xs arbitrary: w)
  case Nil
  then show ?case by (simp add: outcomes_def)
next
  case (Cons x xs)
  have x: "fst (fetchQuoteWithCache cfg x w) = None"
    using Cons.prems failing_symbol_resolution [of cfg x w] by simp
  have "\<forall>s\<in>set xs. provider_error cfg s (snd (fetchQuoteWithCache cfg x w)) \<noteq> None
          \<and> fst (getFromCache cfg s (snd (fetchQuoteWithCache cfg x w))) = None"
    using Cons.prems by (simp add: provider_error_preserved miss_preserved)
  then have "\<forall>r\<in>set (outcomes cfg xs (snd (fetchQuoteWithCache cfg x w))). r = None"
    by (rule Cons.IH)
  with x show ?case
    by (simp add: outcomes_def Promise_all_map_Cons)
qed

lemma example_no_data_fails:
  "provider_error example_config s (example_world_answering example_no_data) = Some NoData"
  "fst (getFromCache example_config s (example_world_answering example_no_data)) = None"
  by (simp_all add: provider_error_def getFromCache_eq cache_entry_def example_defs
      example_no_data_def)

lemma example_event_path:
  "path_symbol (example_event (Some p) q l) = Some p"
  by (simp add: path_symbol_def example_event_def)

lemma example_event_query:
  "path_symbol (example_event None q l) = None"
  "query_symbols (example_event None (Some qs) l) = Some qs"
  "query_symbols (example_event None None l) = None"
  "symbols (example_event p q l) = l"
  by (simp_all add: path_symbol_def query_symbols_def example_event_def)

theorem handler_nothing_found_witness:
  "payload (fst (handler example_config (example_event (Some ''zzzz'') None Absent)
                   (example_world_answering example_no_data))) ''error''
     = Some (FStr (''Stock symbol '' @ [CHR 0x27] @ ''ZZZZ'' @ [CHR 0x27] @ '' not found.''))
   \<and> payload (fst (handler example_config (example_event None (Some ''zzzz,yyyy'') Absent)
                   (example_world_answering example_no_data))) ''quotes''
     = Some (FQuotes [])"
proof -
  let ?w = "example_world_answering example_no_data"
  let ?e1 = "example_event (Some ''zzzz'') None Absent"
  let ?e2 = "example_event None (Some ''zzzz,yyyy'') Absent"
  have all: "\<forall>r\<in>set (outcomes example_config xs ?w). r = None" for xs
    by (rule outcomes_all_fail) (simp add: example_no_data_fails)
  have s1: "response_shape ?e1 = SINGLE"
    by (simp add: response_shape_def example_event_path)
  have s2: "response_shape ?e2 = MULTI"
    by (simp add: response_shape_def example_event_query)
  have n2: "requested_symbols ?e2 \<noteq> []"
    by (simp add: requested_symbols_def example_event_query)
  have up: "toUpperCase (trim (the (path_symbol ?e1))) = ''ZZZZ''"
    by (simp add: example_event_path toUpperCase_def trim_def isWhiteSpace_def upper_char_def)
  show ?thesis
    using handler_nothing_found [of ?e1 example_config ?w]
      handler_nothing_found [of ?e2 example_config ?w] all s1 s2 n2 up
    by simp
qed


theorem handler_no_symbols_witness:
  "fst (handler example_config (example_event None None (Array [])) example_world)
     = errorResponse ''No symbols provided.'' example_world"
proof -
  let ?e = "example_event None None (Array [])"
  have "\<not> truthy (path_symbol ?e) \<and> \<not> truthy (query_symbols ?e) \<and> symbols ?e = Array []"
    by (simp add: example_event_query)
  then show ?thesis
    using handler_no_symbols [of example_config ?e example_world] by simp
qed


























end
